theory Spec2Isabelle
  imports Main "HOL-Library.Sublist"
begin

section \<open>Youtalk: the background media ingestion pipeline\<close>

text \<open>
  A shallow embedding of the pipeline of \<^verbatim>\<open>app.py\<close> and \<^verbatim>\<open>downloader.py\<close>:
  the persistence helper \<^verbatim>\<open>update_video_download_status\<close>, the validator, the
  repairer, the fetch wrapper, the transcriber and the orchestrator
  \<^verbatim>\<open>download_video_background\<close>.  External tools (yt-dlp, ffprobe, ffmpeg, the
  speech recognisers, the MySQL server) are parameters of the model: every
  result they can hand back to the Python code is a value of a datatype.
\<close>

subsection \<open>Python values\<close>

text \<open>
  Exceptions that the code distinguishes: \<^verbatim>\<open>subprocess.TimeoutExpired\<close> has
  handlers of its own, every other \<^verbatim>\<open>Exception\<close> carries its message
  (\<^verbatim>\<open>str(e)\<close>).
\<close>

datatype py_exception = TimeoutExpired string | PyException string

fun exc_str :: "py_exception \<Rightarrow> string" where
  "exc_str (TimeoutExpired m) = m"
| "exc_str (PyException m) = m"

text \<open>Truthiness of an optional string argument: \<^verbatim>\<open>None\<close> and \<^verbatim>\<open>""\<close> are false.\<close>

fun truthy :: "string option \<Rightarrow> bool" where
  "truthy None = False"
| "truthy (Some s) = (s \<noteq> [])"

text \<open>\<^verbatim>\<open>path.replace('\\', '/')\<close>\<close>

definition fix_separators :: "string \<Rightarrow> string" where
  "fix_separators p = map (\<lambda>c. if c = CHR 0x5C then CHR ''/'' else c) p"

text \<open>\<^verbatim>\<open>needle in haystack\<close> on strings.\<close>

fun str_contains :: "string \<Rightarrow> string \<Rightarrow> bool" where
  "str_contains needle [] = (needle = [])"
| "str_contains needle (c # cs) = (prefix needle (c # cs) \<or> str_contains needle cs)"

subsection \<open>The persisted job record (table \<^verbatim>\<open>videos\<close>)\<close>

record video_row =
  download_status :: string
  video_path :: "string option"
  audio_path :: "string option"
  transcript_path :: "string option"
  title :: string
  description :: string

type_synonym database = "nat \<rightharpoonup> video_row"

text \<open>
  What one use of the database can do.  \<^verbatim>\<open>get_db_connection\<close> returns \<^verbatim>\<open>None\<close> when
  connecting fails; \<^verbatim>\<open>connection.cursor()\<close> can raise \<^verbatim>\<open>Error\<close>, after which the
  \<^verbatim>\<open>finally\<close> block reads the unbound \<^verbatim>\<open>cursor\<close> and raises; \<^verbatim>\<open>execute\<close> or
  \<^verbatim>\<open>commit\<close> can raise \<^verbatim>\<open>Error\<close>, which is caught and reported as \<^verbatim>\<open>False\<close>;
  otherwise the statement is committed.
\<close>

datatype db_outcome = NoConnection | CursorFails | StatementFails | Committed

text \<open>\<^verbatim>\<open>UPDATE videos SET ... WHERE id = %s\<close>: no row with that id, no change.\<close>

definition sql_update :: "database \<Rightarrow> nat \<Rightarrow> (video_row \<Rightarrow> video_row) \<Rightarrow> database" where
  "sql_update db video_id f =
     (case db video_id of None \<Rightarrow> db | Some row \<Rightarrow> db(video_id \<mapsto> f row))"

definition db_run ::
  "db_outcome \<Rightarrow> database \<Rightarrow> nat \<Rightarrow> (video_row \<Rightarrow> video_row) \<Rightarrow> (py_exception + bool) \<times> database" where
  "db_run oc db video_id f =
     (case oc of
        NoConnection \<Rightarrow> (Inr False, db)
      | CursorFails \<Rightarrow> (Inl (PyException ''cannot access local variable cursor where it is not associated with a value''), db)
      | StatementFails \<Rightarrow> (Inr False, db)
      | Committed \<Rightarrow> (Inr True, sql_update db video_id f))"

definition update_video_download_status ::
  "db_outcome \<Rightarrow> database \<Rightarrow> nat \<Rightarrow> string \<Rightarrow> string option \<Rightarrow> string option \<Rightarrow> string option
     \<Rightarrow> (py_exception + bool) \<times> database" where
  "update_video_download_status oc db video_id status video_path0 audio_path0 transcript_path0 =
     (let video_path1 = (if truthy video_path0 then map_option fix_separators video_path0 else video_path0);
          audio_path1 = (if truthy audio_path0 then map_option fix_separators audio_path0 else audio_path0);
          transcript_path1 =
            (if truthy transcript_path0 then map_option fix_separators transcript_path0 else transcript_path0)
      in if truthy video_path1 \<and> truthy audio_path1 \<and> truthy transcript_path1 then
           db_run oc db video_id (\<lambda>r. r\<lparr>download_status := status, video_path := video_path1,
                                        audio_path := audio_path1, transcript_path := transcript_path1\<rparr>)
         else if truthy video_path1 \<and> truthy audio_path1 then
           db_run oc db video_id (\<lambda>r. r\<lparr>download_status := status, video_path := video_path1,
                                        audio_path := audio_path1\<rparr>)
         else if truthy video_path1 then
           db_run oc db video_id (\<lambda>r. r\<lparr>download_status := status, video_path := video_path1\<rparr>)
         else
           db_run oc db video_id (\<lambda>r. r\<lparr>download_status := status\<rparr>))"

definition update_video_title :: "db_outcome \<Rightarrow> database \<Rightarrow> nat \<Rightarrow> string \<Rightarrow> (py_exception + bool) \<times> database" where
  "update_video_title oc db video_id t = db_run oc db video_id (\<lambda>r. r\<lparr>title := t\<rparr>)"

definition update_video_description ::
  "db_outcome \<Rightarrow> database \<Rightarrow> nat \<Rightarrow> string \<Rightarrow> (py_exception + bool) \<times> database" where
  "update_video_description oc db video_id d = db_run oc db video_id (\<lambda>r. r\<lparr>description := d\<rparr>)"

subsection \<open>Paths and formatting\<close>

text \<open>
  \<^verbatim>\<open>os.path.basename\<close>, the root part of \<^verbatim>\<open>os.path.splitext\<close> (applied to a base
  name: the extension starts at the last dot, unless only dots precede it) and
  the two-argument \<^verbatim>\<open>os.path.join\<close>, with the POSIX separator.
\<close>

definition basename :: "string \<Rightarrow> string" where
  "basename p = rev (takeWhile (\<lambda>c. c \<noteq> CHR ''/'') (rev p))"

definition splitext_root :: "string \<Rightarrow> string" where
  "splitext_root b =
     (if CHR ''.'' \<notin> set b then b
      else (let root = rev (tl (dropWhile (\<lambda>c. c \<noteq> CHR ''.'') (rev b)))
            in if list_all (\<lambda>c. c = CHR ''.'') root then b else root))"

definition path_join :: "string \<Rightarrow> string \<Rightarrow> string" where
  "path_join a b =
     (if prefix ''/'' b then b
      else if a = [] \<or> last a = CHR ''/'' then a @ b
      else a @ ''/'' @ b)"

text \<open>\<^verbatim>\<open>str(n)\<close> for a natural number, as the f-strings print sizes and ids.\<close>

definition digit_char :: "nat \<Rightarrow> char" where
  "digit_char d = ''0123456789'' ! d"

fun show_nat :: "nat \<Rightarrow> string" where
  "show_nat n =
     (if n < 10 then [digit_char n]
      else show_nat (n div 10) @ [digit_char (n mod 10)])"

declare show_nat.simps [simp del]

text \<open>\<^verbatim>\<open>str\<close> of a list of plain strings: \<^verbatim>\<open>['audio', 'unknown']\<close>.\<close>

fun comma_sep :: "string list \<Rightarrow> string" where
  "comma_sep [] = []"
| "comma_sep [x] = x"
| "comma_sep (x # y # ys) = x @ '', '' @ comma_sep (y # ys)"

definition show_str_list :: "string list \<Rightarrow> string" where
  "show_str_list xs = ''['' @ comma_sep (map (\<lambda>x. [CHR 0x27] @ x @ [CHR 0x27]) xs) @ '']''"

subsection \<open>Media files as the tools see them\<close>

text \<open>
  \<^verbatim>\<open>subprocess.run\<close> either raises (timeout, tool missing) or completes with a
  return code and its captured output.
\<close>

datatype 'a proc = Raised py_exception | Exited int 'a

text \<open>
  \<^verbatim>\<open>magic.from_file(path, mime=True)\<close>: the import or the call fails (both are only
  logged), or a MIME type comes back.
\<close>

datatype sniff_result = NoSniff | Sniffed string

text \<open>One entry of \<^verbatim>\<open>probe_data['streams']\<close>, with the two keys the validator reads.\<close>

record probe_stream =
  codec_type :: "string option"
  codec_name :: "string option"

text \<open>
  The standard output of the detailed probe under \<^verbatim>\<open>json.loads\<close>: the call raises, or
  gives the stream list (a missing \<^verbatim>\<open>streams\<close> key and an empty list are both false
  for \<^verbatim>\<open>probe_data.get('streams')\<close>).
\<close>

datatype probe_stdout = Unparsable string | Streams "probe_stream list"

text \<open>
  A media file is kept by its size and by what the tools answer on it: the
  sniffed type, the detailed probe and the simple probe.  The detailed probe is
  the command of the validator, \<^verbatim>\<open>ffprobe -v error -select_streams v:0 ... -of json\<close>:
  of the streams of the file it lists the first video stream and nothing else.
  The simple probe, \<^verbatim>\<open>ffprobe -v quiet -show_streams -show_format\<close>, prints every
  stream.
\<close>

definition select_streams_v0 :: "probe_stream list \<Rightarrow> probe_stream list" where
  "select_streams_v0 ss = take 1 (filter (\<lambda>s. codec_type s = Some ''video'') ss)"

record media_file =
  fsize :: nat
  sniff :: sniff_result
  probe :: "(probe_stdout \<times> string) proc"
  simple_probe :: "string proc"

type_synonym files = "string \<rightharpoonup> media_file"

text \<open>What the pipeline asks of the outside world, recorded in order.\<close>

datatype event =
    Probe string
  | SimpleProbe string
  | Reencode string
  | Repair string
  | Download string
  | ExtractAudio string
  | Transcribe string

definition min_size :: nat where "min_size = 1024000"

definition no_video_marker :: string where "no_video_marker = ''No video streams''"

subsection \<open>Validator (\<^verbatim>\<open>validate_video_file\<close>)\<close>

definition stream_verdict :: "nat \<Rightarrow> probe_stream list \<Rightarrow> bool \<times> string" where
  "stream_verdict file_size streams =
     (if streams = [] then (False, ''No streams found'')
      else (let video_streams = filter (\<lambda>s. codec_type s = Some ''video'') streams
            in if video_streams = [] then
                 (let stream_types =
                        map (\<lambda>s. case codec_type s of None \<Rightarrow> ''unknown'' | Some t \<Rightarrow> t) streams
                  in (False, ''No video streams detected. Available streams: ''
                               @ show_str_list stream_types))
               else
                 (let codec = (case codec_name (hd video_streams) of
                                 None \<Rightarrow> ''unknown'' | Some c \<Rightarrow> c)
                  in (True, ''Valid '' @ codec @ '' video, '' @ show_nat file_size @ '' bytes''))))"

definition probe_verdict :: "string \<Rightarrow> media_file \<Rightarrow> (bool \<times> string) \<times> event list" where
  "probe_verdict vpath f =
     (case probe f of
        Raised e \<Rightarrow> ((False, ''Validation error: '' @ exc_str e), [Probe vpath])
      | Exited returncode out \<Rightarrow>
          (if returncode \<noteq> 0 then
             (case simple_probe f of
                Raised e \<Rightarrow>
                  ((False, ''Validation error: '' @ exc_str e),
                   [Probe vpath, SimpleProbe vpath])
              | Exited simple_returncode simple_stdout \<Rightarrow>
                  (if simple_returncode = 0 then
                     (if \<not> str_contains ''codec_type=video'' simple_stdout then
                        (False, ''No video streams detected - file may be corrupted or contain only audio'')
                      else (True, ''Video streams present but detailed validation failed''))
                   else (False, ''FFprobe failed: '' @ snd out),
                   [Probe vpath, SimpleProbe vpath]))
           else
             (case fst out of
                Unparsable m \<Rightarrow> ((False, ''Validation error: '' @ m), [Probe vpath])
              | Streams streams \<Rightarrow> (stream_verdict (fsize f) streams, [Probe vpath]))))"

definition validate_video_file :: "files \<Rightarrow> string \<Rightarrow> (bool \<times> string) \<times> event list" where
  "validate_video_file fs vpath =
     (case fs vpath of
        None \<Rightarrow> ((False, ''File not found''), [])
      | Some f \<Rightarrow>
          (if fsize f < min_size then
             ((False, ''File too small: '' @ show_nat (fsize f) @ '' bytes''), [])
           else
             (case sniff f of
                NoSniff \<Rightarrow> probe_verdict vpath f
              | Sniffed file_type \<Rightarrow>
                  (if \<not> prefix ''video/'' file_type \<and> \<not> prefix ''application/octet-stream'' file_type
                   then ((False, ''Not a video file: '' @ file_type), [])
                   else probe_verdict vpath f))))"

subsection \<open>Documents written by the transcriber, and audio as the recognisers see it\<close>

text \<open>
  A transcript file is kept by what it records: the annotated transcript (method
  and text), the plain text, the Whisper transcript, or the failure record of
  \<^verbatim>\<open>create_empty_transcript\<close> with its error message.
\<close>

datatype doc =
    Transcript string string
  | CleanTranscript string
  | WhisperTranscript string
  | FailedTranscript string

type_synonym docs = "string \<rightharpoonup> doc"

type_synonym audio_segment = "int list"

datatype recognition =
    Recognized string
  | UnknownValueError
  | RequestError string
  | RecognizerError py_exception

text \<open>
  An audio file: the stripped text Whisper returns (\<^verbatim>\<open>None\<close> when the import, the
  model or the transcription fails or gives no text), what
  \<^verbatim>\<open>AudioSegment.from_file\<close> gives, whether reading it through
  \<^verbatim>\<open>sr.AudioFile\<close> raises, and the answers of \<^verbatim>\<open>recognize_google\<close> without and
  with \<^verbatim>\<open>show_all\<close> (the transcripts of the alternatives, \<^verbatim>\<open>None\<close> when that call
  raises).
\<close>

record audio_clip =
  whisper_text :: "string option"
  segment :: "py_exception + audio_segment"
  recording :: "py_exception option"
  google :: recognition
  google_alternatives :: "string list option"

subsection \<open>The environment of a job\<close>

record ffmpeg_run =
  ffmpeg_status :: "unit proc"
  ffmpeg_output :: "media_file option"

record ytdlp_run =
  yt_status :: "string proc"
  yt_written :: "(string \<times> media_file) option"

text \<open>
  Fields: the ffmpeg re-encoding of a file (its exit and the file it leaves at
  the output path), failures of \<^verbatim>\<open>os.remove\<close>, \<^verbatim>\<open>os.rename\<close> and
  \<^verbatim>\<open>os.makedirs\<close>, the yt-dlp run for a link and a folder (exit with standard
  error, file written), \<^verbatim>\<open>os.listdir\<close> of a folder, the results of
  \<^verbatim>\<open>extract_audio_with_ffmpeg\<close> and \<^verbatim>\<open>extract_audio_with_pydub\<close> at each attempt (both
  catch every exception and return a path or \<^verbatim>\<open>None\<close>), the audio files, failures
  of opening a file for writing and of exporting a chunk, the text recognised in
  a chunk (\<^verbatim>\<open>None\<close> for every failure, all caught), the outcome of the n-th use of
  the database, and the results of \<^verbatim>\<open>get_video_title_from_youtube\<close> and
  \<^verbatim>\<open>get_video_description_from_youtube\<close> (neither raises).
\<close>

record env =
  reencode :: "string \<Rightarrow> media_file option \<Rightarrow> ffmpeg_run"
  remove_fails :: "string \<Rightarrow> bool"
  rename_fails :: "string \<Rightarrow> string \<Rightarrow> bool"
  makedirs_fails :: "string \<Rightarrow> bool"
  ytdlp :: "string \<Rightarrow> string \<Rightarrow> ytdlp_run"
  listdir :: "string \<Rightarrow> string list"
  audio_with_ffmpeg :: "nat \<Rightarrow> string \<Rightarrow> string \<Rightarrow> string option"
  audio_with_pydub :: "nat \<Rightarrow> string \<Rightarrow> string \<Rightarrow> string option"
  audio_files :: "string \<rightharpoonup> audio_clip"
  write_fails :: "string \<Rightarrow> bool"
  export_fails :: "string \<Rightarrow> bool"
  chunk_text :: "audio_segment \<Rightarrow> string option"
  db_outcomes :: "nat \<Rightarrow> db_outcome"
  video_title :: "string \<Rightarrow> string option"
  video_description :: "string \<Rightarrow> string"

definition quoted :: "string \<Rightarrow> string" where
  "quoted p = [CHR 0x27] @ p @ [CHR 0x27]"

definition no_such_file :: "string \<Rightarrow> py_exception" where
  "no_such_file p = PyException (''[Errno 2] No such file or directory: '' @ quoted p)"

definition permission_denied :: "string \<Rightarrow> py_exception" where
  "permission_denied p = PyException (''[Errno 13] Permission denied: '' @ quoted p)"

definition os_remove :: "env \<Rightarrow> files \<Rightarrow> string \<Rightarrow> py_exception + files" where
  "os_remove e fs p =
     (if fs p = None then Inl (no_such_file p)
      else if remove_fails e p then Inl (permission_denied p)
      else Inr (fs(p := None)))"

definition os_rename :: "env \<Rightarrow> files \<Rightarrow> string \<Rightarrow> string \<Rightarrow> py_exception + files" where
  "os_rename e fs src dst =
     (if fs src = None then Inl (no_such_file src)
      else if rename_fails e src dst then Inl (permission_denied src)
      else if src = dst then Inr fs
      else Inr (fs(dst := fs src, src := None)))"

subsection \<open>Repairer (\<^verbatim>\<open>repair_video_file\<close>)\<close>

text \<open>
  Every failing path ends in \<^verbatim>\<open>if os.path.exists(repaired_path): os.remove(...)\<close>
  and \<^verbatim>\<open>return False, video_path\<close>; a removal that raises inside the \<^verbatim>\<open>try\<close> is
  caught and tried again by the handler, where it raises to the caller.
\<close>

definition discard_repaired ::
  "env \<Rightarrow> files \<Rightarrow> string \<Rightarrow> string \<Rightarrow> (py_exception + bool \<times> string) \<times> files" where
  "discard_repaired e fs repaired_path vpath =
     (case fs repaired_path of
        None \<Rightarrow> (Inr (False, vpath), fs)
      | Some r \<Rightarrow>
          (case os_remove e fs repaired_path of
             Inl err \<Rightarrow> (Inl err, fs)
           | Inr fs' \<Rightarrow> (Inr (False, vpath), fs')))"

definition repaired_path_of :: "string \<Rightarrow> string \<Rightarrow> string" where
  "repaired_path_of vpath output_folder =
     path_join output_folder (splitext_root (basename vpath) @ ''_repaired.mp4'')"

text \<open>The files once ffmpeg has run: what it wrote lies at the output path.\<close>

definition reencoded_files :: "env \<Rightarrow> files \<Rightarrow> string \<Rightarrow> string \<Rightarrow> files" where
  "reencoded_files e fs vpath output_folder =
     (case ffmpeg_output (reencode e vpath (fs vpath)) of
        None \<Rightarrow> fs
      | Some f \<Rightarrow> fs(repaired_path_of vpath output_folder \<mapsto> f))"

definition repair_video_file ::
  "env \<Rightarrow> files \<Rightarrow> string \<Rightarrow> string \<Rightarrow> (py_exception + bool \<times> string) \<times> files \<times> event list" where
  "repair_video_file e fs vpath output_folder =
     (let repaired_path = repaired_path_of vpath output_folder;
          run = reencode e vpath (fs vpath);
          fs1 = reencoded_files e fs vpath output_folder;
          ev = [Repair vpath, Reencode vpath];
          give_up = (case discard_repaired e fs1 repaired_path vpath of (r, fs') \<Rightarrow> (r, fs', ev))
      in case ffmpeg_status run of
           Raised err \<Rightarrow> give_up
         | Exited returncode u \<Rightarrow>
             (case fs1 repaired_path of
                None \<Rightarrow> give_up
              | Some r \<Rightarrow>
                  (if returncode = 0 then
                     (if fsize r > min_size then
                        (case os_remove e fs1 vpath of
                           Inl err \<Rightarrow> (Inr (True, repaired_path), fs1, ev)
                         | Inr fs2 \<Rightarrow>
                             (case os_rename e fs2 repaired_path vpath of
                                Inl err \<Rightarrow> (Inr (True, repaired_path), fs2, ev)
                              | Inr fs3 \<Rightarrow>
                                  (case validate_video_file fs3 vpath of
                                     (verdict, ev') \<Rightarrow> (Inr (fst verdict, vpath), fs3, ev @ ev'))))
                      else give_up)
                   else give_up)))"

subsection \<open>Fetcher (\<^verbatim>\<open>download_youtube_video\<close>)\<close>

fun find_video :: "files \<Rightarrow> string \<Rightarrow> string list \<Rightarrow> py_exception + string option" where
  "find_video fs output_folder [] = Inr None"
| "find_video fs output_folder (file # rest) =
     (let file_path = path_join output_folder file
      in if suffix ''.mp4'' file \<or> suffix ''.webm'' file \<or> suffix ''.mkv'' file then
           (case fs file_path of
              None \<Rightarrow> Inl (no_such_file file_path)
            | Some f \<Rightarrow>
                (if fsize f > min_size then Inr (Some file_path)
                 else find_video fs output_folder rest))
         else find_video fs output_folder rest)"

text \<open>The two handlers of the fetch wrapper.\<close>

fun download_handler :: "py_exception \<Rightarrow> bool \<times> string" where
  "download_handler (TimeoutExpired m) = (False, ''Download timed out'')"
| "download_handler (PyException m) = (False, m)"

text \<open>The files once yt-dlp has run.\<close>

definition downloaded_files :: "env \<Rightarrow> files \<Rightarrow> string \<Rightarrow> string \<Rightarrow> files" where
  "downloaded_files e fs link output_folder =
     (case yt_written (ytdlp e link output_folder) of
        None \<Rightarrow> fs
      | Some (name, f) \<Rightarrow> fs(path_join output_folder name \<mapsto> f))"

definition download_youtube_video ::
  "env \<Rightarrow> files \<Rightarrow> string \<Rightarrow> string \<Rightarrow> (py_exception + bool \<times> string) \<times> files \<times> event list" where
  "download_youtube_video e fs link output_folder =
     (if makedirs_fails e output_folder then (Inl (permission_denied output_folder), fs, [])
      else
        (let run = ytdlp e link output_folder;
             fs1 = downloaded_files e fs link output_folder;
             ev = [Download link]
         in case yt_status run of
              Raised err \<Rightarrow> (Inr (download_handler err), fs1, ev)
            | Exited returncode stderr \<Rightarrow>
                (if returncode \<noteq> 0 then (Inr (False, ''Download failed: '' @ stderr), fs1, ev)
                 else
                   (case find_video fs1 output_folder (listdir e output_folder) of
                      Inl err \<Rightarrow> (Inr (download_handler err), fs1, ev)
                    | Inr None \<Rightarrow> (Inr (False, ''No valid video file found after download''), fs1, ev)
                    | Inr (Some video_file) \<Rightarrow>
                        (case validate_video_file fs1 video_file of
                           (verdict, ev1) \<Rightarrow>
                             (if \<not> fst verdict then
                                (if str_contains no_video_marker (snd verdict) then
                                   (Inr (False, ''Downloaded file has no video streams: '' @ snd verdict),
                                    fs1, ev @ ev1)
                                 else
                                   (case repair_video_file e fs1 video_file output_folder of
                                      (Inl err, fs2, ev2) \<Rightarrow>
                                        (Inr (download_handler err), fs2, ev @ ev1 @ ev2)
                                    | (Inr (repaired, repaired_path), fs2, ev2) \<Rightarrow>
                                        (if repaired then (Inr (True, repaired_path), fs2, ev @ ev1 @ ev2)
                                         else (Inr (False, ''Video file invalid and repair failed: ''
                                                            @ snd verdict), fs2, ev @ ev1 @ ev2))))
                              else (Inr (True, video_file), fs1, ev @ ev1)))))))"

subsection \<open>Audio extractor (\<^verbatim>\<open>extract_audio_from_video\<close>)\<close>

definition max_retries :: nat where "max_retries = 2"

fun extract_attempts :: "env \<Rightarrow> files \<Rightarrow> string \<Rightarrow> string \<Rightarrow> nat list \<Rightarrow> string option" where
  "extract_attempts e fs vpath output_folder [] = None"
| "extract_attempts e fs vpath output_folder (attempt # rest) =
     (case fs vpath of
        None \<Rightarrow> None
      | Some f \<Rightarrow>
          (if fsize f < min_size then None
           else
             (let audio_path_ffmpeg = audio_with_ffmpeg e attempt vpath output_folder
              in if truthy audio_path_ffmpeg then audio_path_ffmpeg
                 else
                   (let audio_path_pydub = audio_with_pydub e attempt vpath output_folder
                    in if truthy audio_path_pydub then audio_path_pydub
                       else if attempt < max_retries then
                         extract_attempts e fs vpath output_folder rest
                       else None))))"

definition extract_audio_from_video :: "env \<Rightarrow> files \<Rightarrow> string \<Rightarrow> string \<Rightarrow> string option" where
  "extract_audio_from_video e fs vpath output_folder =
     extract_attempts e fs vpath output_folder [0 ..< max_retries + 1]"

subsection \<open>Chunking of long audio (\<^verbatim>\<open>transcribe_long_audio\<close>)\<close>

text \<open>
  A pydub \<^verbatim>\<open>AudioSegment\<close> is indexed in milliseconds: \<^verbatim>\<open>len(audio)\<close> is its
  duration in ms and \<^verbatim>\<open>audio[start:end]\<close> the span between two instants.  It is
  modelled as a list with one element per millisecond.
\<close>

definition chunk_length :: nat where "chunk_length = 15000"
definition overlap :: nat where "overlap = 1000"

function split_chunks :: "'a list \<Rightarrow> nat \<Rightarrow> 'a list list \<Rightarrow> 'a list list" where
  "split_chunks audio start chunks =
     (if start < length audio then
        (let end0 = start + chunk_length;
             end1 = (if end0 > length audio then length audio else end0);
             chunk = take (end1 - start) (drop start audio)
         in split_chunks audio (start + (chunk_length - overlap)) (chunks @ [chunk]))
      else chunks)"
  by pat_completeness auto
termination
  by (relation "measure (\<lambda>(audio, start, chunks). length audio - start)")
     (auto simp: chunk_length_def overlap_def)

declare split_chunks.simps [simp del]

definition make_chunks :: "'a list \<Rightarrow> 'a list list" where
  "make_chunks audio = split_chunks audio 0 []"

text \<open>
  The chunk count of the specification, \<open>ceil((D - O) / (L - O))\<close>, for a duration
  \<open>D\<close> in milliseconds.
\<close>

definition spec_chunk_count :: "nat \<Rightarrow> nat" where
  "spec_chunk_count D =
     ((D - overlap) + (chunk_length - overlap) - 1) div (chunk_length - overlap)"

subsection \<open>Transcriber (\<^verbatim>\<open>transcribe_audio\<close> and its helpers)\<close>

text \<open>\<^verbatim>\<open>s.replace(needle, '')\<close> for a non-empty needle.\<close>

function str_remove :: "string \<Rightarrow> string \<Rightarrow> string" where
  "str_remove needle s =
     (if s = [] \<or> needle = [] then s
      else if prefix needle s then str_remove needle (drop (length needle) s)
      else hd s # str_remove needle (tl s))"
  by pat_completeness auto
termination
  by (relation "measure (\<lambda>(needle, s). length s)") auto

declare str_remove.simps [simp del]

text \<open>\<^verbatim>\<open>with open(path, 'w') as f: f.write(...)\<close>\<close>

definition write_doc :: "env \<Rightarrow> docs \<Rightarrow> string \<Rightarrow> doc \<Rightarrow> py_exception + docs" where
  "write_doc e ds path d =
     (if write_fails e path then Inl (permission_denied path) else Inr (ds(path \<mapsto> d)))"

definition transcript_base :: "string \<Rightarrow> string" where
  "transcript_base apath = str_remove ''_audio'' (splitext_root (basename apath))"

definition transcript_path_of :: "string \<Rightarrow> string \<Rightarrow> string" where
  "transcript_path_of apath output_folder =
     path_join output_folder (transcript_base apath @ ''_transcript.txt'')"

definition create_empty_transcript ::
  "env \<Rightarrow> docs \<Rightarrow> string \<Rightarrow> string \<Rightarrow> string \<Rightarrow> (py_exception + string) \<times> docs" where
  "create_empty_transcript e ds apath output_folder error_message =
     (let tpath = transcript_path_of apath output_folder
      in case write_doc e ds tpath (FailedTranscript error_message) of
           Inl err \<Rightarrow> (Inl err, ds)
         | Inr ds' \<Rightarrow> (Inr tpath, ds'))"

text \<open>
  \<^verbatim>\<open>except Exception as e: return create_empty_transcript(..., f"<prefix>{e}")\<close>
  around a computation that has already changed the documents.
\<close>

definition on_exception ::
  "env \<Rightarrow> string \<Rightarrow> string \<Rightarrow> string \<Rightarrow> (py_exception + string) \<times> docs
     \<Rightarrow> (py_exception + string) \<times> docs" where
  "on_exception e apath output_folder msg_prefix r =
     (case r of
        (Inl err, ds) \<Rightarrow> create_empty_transcript e ds apath output_folder (msg_prefix @ exc_str err)
      | (Inr p, ds) \<Rightarrow> (Inr p, ds))"

definition is_space :: "char \<Rightarrow> bool" where
  "is_space c =
     (c \<in> set [CHR '' '', CHR 0x09, CHR 0x0A, CHR 0x0B, CHR 0x0C, CHR 0x0D,
                CHR 0x1C, CHR 0x1D, CHR 0x1E, CHR 0x1F])"

text \<open>
  \<^verbatim>\<open>format_transcript\<close> divides the character count by the word count of
  \<^verbatim>\<open>text.split()\<close>, which is zero exactly when the text is all white space.
\<close>

definition format_transcript :: "string \<Rightarrow> string \<Rightarrow> py_exception + doc" where
  "format_transcript text method =
     (if list_all is_space text then Inl (PyException ''division by zero'')
      else Inr (Transcript method text))"

definition save_transcript ::
  "env \<Rightarrow> docs \<Rightarrow> string \<Rightarrow> string \<Rightarrow> string \<Rightarrow> string \<Rightarrow> (py_exception + string) \<times> docs" where
  "save_transcript e ds apath output_folder text method =
     on_exception e apath output_folder ''Save error: ''
       (let tpath = transcript_path_of apath output_folder;
            clean_path = path_join output_folder (transcript_base apath @ ''_clean_transcript.txt'')
        in case format_transcript text method of
             Inl err \<Rightarrow> (Inl err, ds)
           | Inr formatted \<Rightarrow>
               (case write_doc e ds tpath formatted of
                  Inl err \<Rightarrow> (Inl err, ds)
                | Inr ds1 \<Rightarrow>
                    (case write_doc e ds1 clean_path (CleanTranscript text) of
                       Inl err \<Rightarrow> (Inl err, ds1)
                     | Inr ds2 \<Rightarrow> (Inr tpath, ds2))))"

definition transcribe_with_whisper ::
  "env \<Rightarrow> docs \<Rightarrow> audio_clip \<Rightarrow> string \<Rightarrow> string \<Rightarrow> string option \<times> docs" where
  "transcribe_with_whisper e ds clip apath output_folder =
     (case whisper_text clip of
        None \<Rightarrow> (None, ds)
      | Some text \<Rightarrow>
          (if text = [] then (None, ds)
           else
             (let tpath = path_join output_folder (transcript_base apath @ ''_whisper_transcript.txt'')
              in case write_doc e ds tpath (WhisperTranscript text) of
                   Inl err \<Rightarrow> (None, ds)
                 | Inr ds' \<Rightarrow> (Some tpath, ds'))))"

definition transcribe_short_audio ::
  "env \<Rightarrow> docs \<Rightarrow> audio_clip \<Rightarrow> string \<Rightarrow> string \<Rightarrow> (py_exception + string) \<times> docs" where
  "transcribe_short_audio e ds clip apath output_folder =
     on_exception e apath output_folder ''Short audio error: ''
       (case recording clip of
          Some err \<Rightarrow> (Inl err, ds)
        | None \<Rightarrow>
            (case google clip of
               RecognizerError err \<Rightarrow> (Inl err, ds)
             | answer \<Rightarrow>
                 (let text = (case answer of Recognized t \<Rightarrow> Some t | _ \<Rightarrow> None);
                      text' = (if \<not> truthy text then
                                 (case google_alternatives clip of
                                    Some (t # ts) \<Rightarrow> Some t
                                  | _ \<Rightarrow> text)
                               else text)
                  in case text' of
                       Some t \<Rightarrow>
                         (if t \<noteq> [] then save_transcript e ds apath output_folder t ''short''
                          else create_empty_transcript e ds apath output_folder
                                 ''No speech content detected'')
                     | None \<Rightarrow>
                         create_empty_transcript e ds apath output_folder
                           ''No speech content detected'')))"

text \<open>
  The loop over the chunks: the export of the temporary file and its removal in
  the \<^verbatim>\<open>finally\<close> block are outside the inner handlers; every failure of the
  recognition itself is caught and the chunk contributes nothing.
\<close>

fun transcribe_chunks ::
  "env \<Rightarrow> string \<Rightarrow> nat \<Rightarrow> audio_segment list \<Rightarrow> string list \<Rightarrow> py_exception + string list" where
  "transcribe_chunks e output_folder i [] all_texts = Inr all_texts"
| "transcribe_chunks e output_folder i (chunk # rest) all_texts =
     (let temp_chunk_path = path_join output_folder (''temp_chunk_'' @ show_nat i @ ''.wav'')
      in if export_fails e temp_chunk_path then Inl (permission_denied temp_chunk_path)
         else
           (let all_texts' = (case chunk_text e chunk of
                                Some t \<Rightarrow> (if t \<noteq> [] then all_texts @ [t] else all_texts)
                              | None \<Rightarrow> all_texts)
            in if remove_fails e temp_chunk_path then Inl (permission_denied temp_chunk_path)
               else transcribe_chunks e output_folder (Suc i) rest all_texts'))"

fun join_spaces :: "string list \<Rightarrow> string" where
  "join_spaces [] = []"
| "join_spaces [x] = x"
| "join_spaces (x # y # ys) = x @ '' '' @ join_spaces (y # ys)"

definition transcribe_long_audio ::
  "env \<Rightarrow> docs \<Rightarrow> audio_clip \<Rightarrow> string \<Rightarrow> string \<Rightarrow> (py_exception + string) \<times> docs" where
  "transcribe_long_audio e ds clip apath output_folder =
     on_exception e apath output_folder ''Long audio error: ''
       (case segment clip of
          Inl err \<Rightarrow> (Inl err, ds)
        | Inr audio \<Rightarrow>
            (case transcribe_chunks e output_folder 0 (make_chunks audio) [] of
               Inl err \<Rightarrow> (Inl err, ds)
             | Inr all_texts \<Rightarrow>
                 (if all_texts \<noteq> [] then
                    save_transcript e ds apath output_folder (join_spaces all_texts) ''chunked''
                  else create_empty_transcript e ds apath output_folder
                         ''No speech content detected in any chunks'')))"

definition transcribe_audio ::
  "env \<Rightarrow> docs \<Rightarrow> string \<Rightarrow> string \<Rightarrow> (py_exception + string) \<times> docs" where
  "transcribe_audio e ds apath output_folder =
     on_exception e apath output_folder ''Transcription error: ''
       (case audio_files e apath of
          None \<Rightarrow> create_empty_transcript e ds apath output_folder ''Audio file not found''
        | Some clip \<Rightarrow>
            (case transcribe_with_whisper e ds clip apath output_folder of
               (Some whisper_result, ds1) \<Rightarrow> (Inr whisper_result, ds1)
             | (None, ds1) \<Rightarrow>
                 (let duration_ms = (case segment clip of Inl err \<Rightarrow> 0 | Inr audio \<Rightarrow> length audio)
                  in if duration_ms > 30000 then
                       transcribe_long_audio e ds1 clip apath output_folder
                     else transcribe_short_audio e ds1 clip apath output_folder)))"

subsection \<open>Orchestrator (\<^verbatim>\<open>download_video_background\<close>)\<close>

text \<open>
  The state a job runs in: the media files, the transcript documents, the
  database, the number of database uses so far, and the trace of tool
  invocations.
\<close>

record world =
  wfiles :: files
  wdocs :: docs
  wdb :: database
  wcalls :: nat
  wtrace :: "event list"

definition BASE_DOWNLOAD_FOLDER :: string where
  "BASE_DOWNLOAD_FOLDER = ''static/downloads''"

definition default_description :: string where
  "default_description = ''Video description will be updated shortly...''"

definition get_video_folder :: "env \<Rightarrow> nat \<Rightarrow> py_exception + string" where
  "get_video_folder e video_id =
     (let video_folder = path_join BASE_DOWNLOAD_FOLDER (''video_'' @ show_nat video_id)
      in if makedirs_fails e video_folder then Inl (permission_denied video_folder)
         else Inr video_folder)"

text \<open>One use of the database by the job: the outcome is that of the n-th use.\<close>

definition set_status ::
  "env \<Rightarrow> world \<Rightarrow> nat \<Rightarrow> string \<Rightarrow> string option \<Rightarrow> string option \<Rightarrow> string option
     \<Rightarrow> (py_exception + unit) \<times> world" where
  "set_status e w video_id status vp ap tp =
     (case update_video_download_status (db_outcomes e (wcalls w)) (wdb w) video_id status vp ap tp of
        (r, db') \<Rightarrow>
          (case r of Inl err \<Rightarrow> Inl err | Inr ok \<Rightarrow> Inr (),
           w\<lparr>wdb := db', wcalls := Suc (wcalls w)\<rparr>))"

definition set_title :: "env \<Rightarrow> world \<Rightarrow> nat \<Rightarrow> string \<Rightarrow> (py_exception + unit) \<times> world" where
  "set_title e w video_id t =
     (case update_video_title (db_outcomes e (wcalls w)) (wdb w) video_id t of
        (r, db') \<Rightarrow>
          (case r of Inl err \<Rightarrow> Inl err | Inr ok \<Rightarrow> Inr (),
           w\<lparr>wdb := db', wcalls := Suc (wcalls w)\<rparr>))"

definition set_description :: "env \<Rightarrow> world \<Rightarrow> nat \<Rightarrow> string \<Rightarrow> (py_exception + unit) \<times> world" where
  "set_description e w video_id d =
     (case update_video_description (db_outcomes e (wcalls w)) (wdb w) video_id d of
        (r, db') \<Rightarrow>
          (case r of Inl err \<Rightarrow> Inl err | Inr ok \<Rightarrow> Inr (),
           w\<lparr>wdb := db', wcalls := Suc (wcalls w)\<rparr>))"

text \<open>Step 1: title and description, written only when something was fetched.\<close>

definition fetch_metadata :: "env \<Rightarrow> world \<Rightarrow> nat \<Rightarrow> string \<Rightarrow> (py_exception + unit) \<times> world" where
  "fetch_metadata e w video_id link =
     (let actual_title = video_title e link;
          actual_description = video_description e link
      in case (case actual_title of
                 Some t \<Rightarrow> (if t \<noteq> [] then set_title e w video_id t else (Inr (), w))
               | None \<Rightarrow> (Inr (), w)) of
           (Inl err, w1) \<Rightarrow> (Inl err, w1)
         | (Inr u, w1) \<Rightarrow>
             (if actual_description \<noteq> [] \<and> actual_description \<noteq> default_description then
                set_description e w1 video_id actual_description
              else (Inr (), w1)))"

text \<open>
  \<^verbatim>\<open>update_video_download_status(video_id, 'failed'); return\<close>: the result
  \<^verbatim>\<open>None\<close> says that the job has returned.
\<close>

definition fail_and_return ::
  "env \<Rightarrow> world \<Rightarrow> nat \<Rightarrow> (py_exception + string option) \<times> world" where
  "fail_and_return e w video_id =
     (case set_status e w video_id ''failed'' None None None of
        (Inl err, w') \<Rightarrow> (Inl err, w')
      | (Inr u, w') \<Rightarrow> (Inr None, w'))"

text \<open>
  Validation of the fetched file and the one repair of the orchestrator; the
  result is the path to go on with.
\<close>

definition check_video ::
  "env \<Rightarrow> world \<Rightarrow> nat \<Rightarrow> string \<Rightarrow> string \<Rightarrow> (py_exception + string option) \<times> world" where
  "check_video e w video_id result video_folder =
     (case validate_video_file (wfiles w) result of
        (verdict, ev) \<Rightarrow>
          (let w1 = w\<lparr>wtrace := wtrace w @ ev\<rparr>
           in if \<not> fst verdict then
                (case wfiles w1 result of
                   None \<Rightarrow> (Inl (no_such_file result), w1)
                 | Some f \<Rightarrow>
                     (if fsize f < 1024000 then fail_and_return e w1 video_id
                      else if str_contains no_video_marker (snd verdict) then
                        fail_and_return e w1 video_id
                      else
                        (case repair_video_file e (wfiles w1) result video_folder of
                           (Inl err, fs2, ev2) \<Rightarrow>
                             (Inl err, w1\<lparr>wfiles := fs2, wtrace := wtrace w1 @ ev2\<rparr>)
                         | (Inr (repaired, repaired_path), fs2, ev2) \<Rightarrow>
                             (let w2 = w1\<lparr>wfiles := fs2, wtrace := wtrace w1 @ ev2\<rparr>
                              in if repaired then
                                   (case validate_video_file (wfiles w2) repaired_path of
                                      (verdict2, ev3) \<Rightarrow>
                                        (let w3 = w2\<lparr>wtrace := wtrace w2 @ ev3\<rparr>
                                         in if \<not> fst verdict2 then fail_and_return e w3 video_id
                                            else (Inr (Some repaired_path), w3)))
                                 else fail_and_return e w2 video_id))))
              else (Inr (Some result), w1)))"

text \<open>Steps 5 to 7: audio, transcript when there is audio, and the final update.\<close>

definition extract_and_transcribe ::
  "env \<Rightarrow> world \<Rightarrow> nat \<Rightarrow> string \<Rightarrow> string \<Rightarrow> (py_exception + unit) \<times> world" where
  "extract_and_transcribe e w video_id result video_folder =
     (let apath = extract_audio_from_video e (wfiles w) result video_folder;
          w1 = w\<lparr>wtrace := wtrace w @ [ExtractAudio result]\<rparr>
      in case apath of
           None \<Rightarrow> set_status e w1 video_id ''completed'' (Some result) None None
         | Some a \<Rightarrow>
             (if a \<noteq> [] then
                (case transcribe_audio e (wdocs w1) a video_folder of
                   (Inl err, ds) \<Rightarrow>
                     (Inl err, w1\<lparr>wdocs := ds, wtrace := wtrace w1 @ [Transcribe a]\<rparr>)
                 | (Inr tpath, ds) \<Rightarrow>
                     set_status e (w1\<lparr>wdocs := ds, wtrace := wtrace w1 @ [Transcribe a]\<rparr>)
                       video_id ''completed'' (Some result) (Some a) (Some tpath))
              else set_status e w1 video_id ''completed'' (Some result) (Some a) None))"

text \<open>
  The clean-up after a failed fetch, inside its own \<^verbatim>\<open>try\<close>: the first removal
  that raises ends it.
\<close>

fun remove_listed :: "env \<Rightarrow> files \<Rightarrow> string \<Rightarrow> string list \<Rightarrow> files" where
  "remove_listed e fs video_folder [] = fs"
| "remove_listed e fs video_folder (file # rest) =
     (let file_path = path_join video_folder file
      in case fs file_path of
           None \<Rightarrow> remove_listed e fs video_folder rest
         | Some f \<Rightarrow>
             (case os_remove e fs file_path of
                Inl err \<Rightarrow> fs
              | Inr fs' \<Rightarrow> remove_listed e fs' video_folder rest))"

definition clean_partial_files :: "env \<Rightarrow> world \<Rightarrow> nat \<Rightarrow> world" where
  "clean_partial_files e w video_id =
     (case get_video_folder e video_id of
        Inl err \<Rightarrow> w
      | Inr video_folder \<Rightarrow>
          w\<lparr>wfiles := remove_listed e (wfiles w) video_folder (listdir e video_folder)\<rparr>)"

text \<open>The body of the \<^verbatim>\<open>try\<close> block.\<close>

definition background_body :: "env \<Rightarrow> world \<Rightarrow> nat \<Rightarrow> string \<Rightarrow> (py_exception + unit) \<times> world" where
  "background_body e w video_id youtube_link =
     (case get_video_folder e video_id of
        Inl err \<Rightarrow> (Inl err, w)
      | Inr video_folder \<Rightarrow>
          (case set_status e w video_id ''downloading'' None None None of
             (Inl err, w1) \<Rightarrow> (Inl err, w1)
           | (Inr u, w1) \<Rightarrow>
               (case fetch_metadata e w1 video_id youtube_link of
                  (Inl err, w2) \<Rightarrow> (Inl err, w2)
                | (Inr u, w2) \<Rightarrow>
                    (case download_youtube_video e (wfiles w2) youtube_link video_folder of
                       (Inl err, fs, ev) \<Rightarrow> (Inl err, w2\<lparr>wfiles := fs, wtrace := wtrace w2 @ ev\<rparr>)
                     | (Inr (success, result), fs, ev) \<Rightarrow>
                         (let w3 = w2\<lparr>wfiles := fs, wtrace := wtrace w2 @ ev\<rparr>
                          in if success then
                               (case check_video e w3 video_id result video_folder of
                                  (Inl err, w4) \<Rightarrow> (Inl err, w4)
                                | (Inr None, w4) \<Rightarrow> (Inr (), w4)
                                | (Inr (Some r), w4) \<Rightarrow>
                                    extract_and_transcribe e w4 video_id r video_folder)
                             else
                               (case set_status e w3 video_id ''failed'' None None None of
                                  (Inl err, w4) \<Rightarrow> (Inl err, w4)
                                | (Inr u, w4) \<Rightarrow> (Inr (), clean_partial_files e w4 video_id)))))))"

text \<open>
  The job: the body, and the handler \<^verbatim>\<open>except Exception\<close> that marks the job as
  failed.  The result is the exception that leaves the function, if any.
\<close>

definition download_video_background ::
  "env \<Rightarrow> world \<Rightarrow> nat \<Rightarrow> string \<Rightarrow> py_exception option \<times> world" where
  "download_video_background e w video_id youtube_link =
     (case background_body e w video_id youtube_link of
        (Inr u, w') \<Rightarrow> (None, w')
      | (Inl err, w') \<Rightarrow>
          (case set_status e w' video_id ''failed'' None None None of
             (Inl err', w'') \<Rightarrow> (Some err', w'')
           | (Inr u, w'') \<Rightarrow> (None, w'')))"

definition job_status :: "world \<Rightarrow> nat \<Rightarrow> string option" where
  "job_status w video_id = map_option download_status (wdb w video_id)"

definition repairs :: "event list \<Rightarrow> nat" where
  "repairs tr = length (filter (\<lambda>ev. case ev of Repair p \<Rightarrow> True | _ \<Rightarrow> False) tr)"

subsection \<open>Concrete files and environments\<close>

text \<open>
  An environment in which nothing is fetched and nothing fails, and a few files:
  a sound video, a file too small to be a video, and a file whose probe times
  out.
\<close>

definition plain_env :: env where
  "plain_env =
     \<lparr>reencode = (\<lambda>p f. \<lparr>ffmpeg_status = Exited 1 (), ffmpeg_output = None\<rparr>),
      remove_fails = (\<lambda>p. False),
      rename_fails = (\<lambda>src dst. False),
      makedirs_fails = (\<lambda>p. False),
      ytdlp = (\<lambda>link folder. \<lparr>yt_status = Exited 1 ''ERROR: unavailable'', yt_written = None\<rparr>),
      listdir = (\<lambda>folder. []),
      audio_with_ffmpeg = (\<lambda>n p folder. None),
      audio_with_pydub = (\<lambda>n p folder. None),
      audio_files = Map.empty,
      write_fails = (\<lambda>p. False),
      export_fails = (\<lambda>p. False),
      chunk_text = (\<lambda>a. None),
      db_outcomes = (\<lambda>n. Committed),
      video_title = (\<lambda>link. None),
      video_description = (\<lambda>link. default_description)\<rparr>"

definition good_video :: media_file where
  "good_video =
     \<lparr>fsize = 5000000, sniff = NoSniff,
      probe = Exited 0 (Streams [\<lparr>codec_type = Some ''video'', codec_name = Some ''h264''\<rparr>], []),
      simple_probe = Exited 0 ''codec_type=video''\<rparr>"

definition small_file :: media_file where
  "small_file = good_video\<lparr>fsize := 500000\<rparr>"

definition stalled_video :: media_file where
  "stalled_video =
     \<lparr>fsize = 2000000, sniff = NoSniff,
      probe = Raised (TimeoutExpired ''Command ffprobe timed out after 30 seconds''),
      simple_probe = Raised (TimeoutExpired ''Command ffprobe timed out after 10 seconds'')\<rparr>"

text \<open>
  A sound container of 2 MB that holds one audio stream and no video stream.  The
  detailed probe selects \<^verbatim>\<open>v:0\<close> and lists nothing; the simple probe prints
  the audio stream.
\<close>

definition audio_only :: media_file where
  "audio_only =
     \<lparr>fsize = 2000000, sniff = NoSniff,
      probe = Exited 0
        (Streams (select_streams_v0 [\<lparr>codec_type = Some ''audio'', codec_name = Some ''aac''\<rparr>]), []),
      simple_probe = Exited 0 ''codec_type=audio''\<rparr>"

definition folder1 :: string where
  "folder1 = ''static/downloads/video_1''"

definition video1 :: string where
  "video1 = ''static/downloads/video_1/video_100.mp4''"

definition pending_row :: video_row where
  "pending_row =
     \<lparr>download_status = ''pending'', video_path = None, audio_path = None,
      transcript_path = None, title = ''Loading'', description = default_description\<rparr>"

definition world1 :: world where
  "world1 =
     \<lparr>wfiles = Map.empty, wdocs = Map.empty, wdb = [1 \<mapsto> pending_row], wcalls = 0, wtrace = []\<rparr>"

text \<open>
  Every re-encoding succeeds but leaves a file whose probe times out again, and
  the fetched file cannot be removed (it is still held open).
\<close>

definition locked_env :: env where
  "locked_env = plain_env
     \<lparr>reencode := (\<lambda>p f. \<lparr>ffmpeg_status = Exited 0 (), ffmpeg_output = Some stalled_video\<rparr>),
      remove_fails := (\<lambda>p. p = video1)\<rparr>"

text \<open>yt-dlp succeeds and leaves the given file as \<^verbatim>\<open>video_100.mp4\<close>.\<close>

definition fetch_env :: "media_file \<Rightarrow> env" where
  "fetch_env f = plain_env
     \<lparr>ytdlp := (\<lambda>link folder. \<lparr>yt_status = Exited 0 [], yt_written = Some (''video_100.mp4'', f)\<rparr>),
      listdir := (\<lambda>folder. [''video_100.mp4''])\<rparr>"

definition link1 :: string where
  "link1 = ''https://youtu.be/abc''"











text \<open>
  The result of the transcriber is the path of a transcript it wrote: the
  annotated transcript, the Whisper transcript or the failure record.
\<close>

fun transcript_doc :: "doc \<Rightarrow> bool" where
  "transcript_doc (Transcript method text) = True"
| "transcript_doc (WhisperTranscript text) = True"
| "transcript_doc (FailedTranscript reason) = True"
| "transcript_doc (CleanTranscript text) = False"

definition wrote_transcript :: "(py_exception + string) \<times> docs \<Rightarrow> bool" where
  "wrote_transcript r =
     (case r of
        (Inl err, ds) \<Rightarrow> False
      | (Inr p, ds) \<Rightarrow> (case ds p of None \<Rightarrow> False | Some d \<Rightarrow> transcript_doc d))"







section \<open>Properties\<close>

subsection \<open>Persistence helper\<close>

lemma truthy_fix_separators [simp]: "truthy (map_option fix_separators p) = truthy p"
  by (cases p) (simp_all add: fix_separators_def)


subsection \<open>Validator\<close>

text \<open>
  C6.  For a file that exists and is smaller than 1024000 bytes,
  \<^verbatim>\<open>validate_video_file\<close> returns a failing verdict and invokes neither the
  detailed nor the simple ffprobe.
\<close>

theorem validate_small_file_no_probe:
  "fs vpath = Some f \<Longrightarrow> fsize f < 1024000 \<Longrightarrow>
     fst (fst (validate_video_file fs vpath)) = False \<and> snd (validate_video_file fs vpath) = []"
  by (simp add: validate_video_file_def min_size_def)

theorem validate_small_file_no_probe_witness:
  "[video1 \<mapsto> small_file] video1 = Some small_file \<and> fsize small_file < 1024000 \<and>
   fst (fst (validate_video_file [video1 \<mapsto> small_file] video1)) = False \<and>
   snd (validate_video_file [video1 \<mapsto> small_file] video1) = []"
  using validate_small_file_no_probe [of "[video1 \<mapsto> small_file]" video1 small_file]
  by (simp add: small_file_def good_video_def)

subsection \<open>Repairer\<close>

lemmas path_defs = repaired_path_of_def path_join_def splitext_root_def basename_def

lemma repaired_path_video1:
  "repaired_path_of video1 folder1 = ''static/downloads/video_1/video_100_repaired.mp4''"
  by (simp add: path_defs video1_def folder1_def)

text \<open>
  C10.  When ffmpeg exits with 0 and its output is larger than 1024000 bytes, and
  removing the original file or renaming the repaired file onto it raises,
  \<^verbatim>\<open>repair_video_file\<close> reports success with the path ending in
  \<^verbatim>\<open>_repaired.mp4\<close>, and no probe of that file is run.
\<close>

theorem repair_replace_failure:
  assumes "ffmpeg_status (reencode e vpath (fs vpath)) = Exited 0 u"
      and "reencoded_files e fs vpath output_folder (repaired_path_of vpath output_folder) = Some r"
      and "fsize r > 1024000"
      and "os_remove e (reencoded_files e fs vpath output_folder) vpath = Inl err \<or>
           (\<exists>fs2. os_remove e (reencoded_files e fs vpath output_folder) vpath = Inr fs2 \<and>
                  os_rename e fs2 (repaired_path_of vpath output_folder) vpath = Inl err)"
  shows "fst (repair_video_file e fs vpath output_folder)
           = Inr (True, repaired_path_of vpath output_folder) \<and>
         snd (snd (repair_video_file e fs vpath output_folder)) = [Repair vpath, Reencode vpath] \<and>
         suffix ''_repaired.mp4'' (repaired_path_of vpath output_folder)"
proof -
  have "suffix ''_repaired.mp4'' (repaired_path_of vpath output_folder)"
    by (auto simp: repaired_path_of_def path_join_def suffix_def)
  then show ?thesis using assms
    by (auto simp: repair_video_file_def Let_def min_size_def)
qed

theorem repair_replace_failure_witness:
  "ffmpeg_status (reencode locked_env video1 ([video1 \<mapsto> stalled_video] video1)) = Exited 0 () \<and>
   reencoded_files locked_env [video1 \<mapsto> stalled_video] video1 folder1
     (repaired_path_of video1 folder1) = Some stalled_video \<and>
   fsize stalled_video > 1024000 \<and>
   os_remove locked_env (reencoded_files locked_env [video1 \<mapsto> stalled_video] video1 folder1) video1
     = Inl (permission_denied video1) \<and>
   fst (repair_video_file locked_env [video1 \<mapsto> stalled_video] video1 folder1)
     = Inr (True, ''static/downloads/video_1/video_100_repaired.mp4'') \<and>
   snd (snd (repair_video_file locked_env [video1 \<mapsto> stalled_video] video1 folder1))
     = [Repair video1, Reencode video1]"
proof -
  have a: "ffmpeg_status (reencode locked_env video1 ([video1 \<mapsto> stalled_video] video1)) = Exited 0 ()"
    by (simp add: locked_env_def plain_env_def)
  have b: "reencoded_files locked_env [video1 \<mapsto> stalled_video] video1 folder1
     (repaired_path_of video1 folder1) = Some stalled_video"
    by (simp add: reencoded_files_def locked_env_def plain_env_def)
  have c: "fsize stalled_video > 1024000" by (simp add: stalled_video_def)
  have d: "os_remove locked_env
             (reencoded_files locked_env [video1 \<mapsto> stalled_video] video1 folder1) video1
           = Inl (permission_denied video1)"
    by (simp add: os_remove_def reencoded_files_def locked_env_def plain_env_def
          repaired_path_video1)
  from d have d':
    "os_remove locked_env
       (reencoded_files locked_env [video1 \<mapsto> stalled_video] video1 folder1) video1
       = Inl (permission_denied video1) \<or>
     (\<exists>fs2. os_remove locked_env
              (reencoded_files locked_env [video1 \<mapsto> stalled_video] video1 folder1) video1 = Inr fs2 \<and>
            os_rename locked_env fs2 (repaired_path_of video1 folder1) video1
              = Inl (permission_denied video1))"
    by simp
  show ?thesis
    using repair_replace_failure [OF a b c d'] a b c d by (simp add: repaired_path_video1)
qed

subsection \<open>Chunking\<close>

lemma ceil_step:
  fixes n s :: nat
  assumes "s < n"
  shows "(n - s + 13999) div 14000 = Suc ((n - (s + 14000) + 13999) div 14000)"
proof (cases "s + 14000 \<le> n")
  case True
  then have "n - s + 13999 = (n - (s + 14000) + 13999) + 14000" by simp
  then show ?thesis by (simp only: div_add_self2)
next
  case False
  with assms have "n - (s + 14000) = 0" "0 < n - s" "n - s < 14000" by simp_all
  then show ?thesis by simp
qed

lemma split_chunks_length:
  "length (split_chunks audio start chunks) =
     length chunks + (length audio - start + 13999) div 14000"
proof (induction audio start chunks rule: split_chunks.induct)
  case (1 audio start chunks)
  show ?case
  proof (cases "start < length audio")
    case True
    have "length (split_chunks audio start chunks) =
          length (split_chunks audio (start + (chunk_length - overlap))
             (chunks @ [take ((if start + chunk_length > length audio then length audio
                               else start + chunk_length) - start) (drop start audio)]))"
      using True by (subst split_chunks.simps) (simp add: Let_def)
    also have "\<dots> = Suc (length chunks) + (length audio - (start + 14000) + 13999) div 14000"
      using 1 [OF True refl refl refl] by (simp add: chunk_length_def overlap_def)
    finally show ?thesis using ceil_step [OF True] by linarith
  next
    case False
    then show ?thesis
      by (subst split_chunks.simps) simp
  qed
qed

text \<open>
  C5 as stated fails: an audio of 43 s (longer than the 30 s threshold) is cut at
  0, 14, 28 and 42 s, four chunks, where \<open>ceil((D - O) / (L - O))\<close> is three.
\<close>

theorem chunk_count_counterexample:
  "30000 < length (replicate 43000 (0::nat)) \<and>
   length (make_chunks (replicate 43000 (0::nat))) = 4 \<and>
   spec_chunk_count (length (replicate 43000 (0::nat))) = 3 \<and>
   length (make_chunks (replicate 43000 (0::nat))) \<noteq>
     spec_chunk_count (length (replicate 43000 (0::nat)))"
  by (simp add: make_chunks_def split_chunks_length spec_chunk_count_def
        chunk_length_def overlap_def)

text \<open>
  C5, amended.  The loop starts a chunk every \<open>L - O\<close> = 14000 ms while the start
  lies before the end of the audio, so an audio of \<open>D\<close> ms gives
  \<open>ceil(D / (L - O))\<close> chunks.
\<close>

theorem make_chunks_count:
  "length (make_chunks audio) =
     (length audio + (chunk_length - overlap) - 1) div (chunk_length - overlap)"
  by (simp add: make_chunks_def split_chunks_length chunk_length_def overlap_def)

subsection \<open>What the steps of the orchestrator leave unchanged\<close>

lemma set_status_frame:
  "wtrace (snd (set_status e w vid st vp ap tp)) = wtrace w \<and>
   wfiles (snd (set_status e w vid st vp ap tp)) = wfiles w"
  by (simp add: set_status_def split: prod.splits)

lemma set_status_frameD:
  "set_status e w vid st vp ap tp = (r, w') \<Longrightarrow> wtrace w' = wtrace w \<and> wfiles w' = wfiles w"
  using set_status_frame [of e w vid st vp ap tp] by simp

lemma fail_and_return_frame:
  "wtrace (snd (fail_and_return e w vid)) = wtrace w \<and>
   wfiles (snd (fail_and_return e w vid)) = wfiles w"
  by (simp add: fail_and_return_def set_status_def split: prod.splits sum.splits)


lemma clean_partial_files_trace: "wtrace (clean_partial_files e w vid) = wtrace w"
  by (simp add: clean_partial_files_def split: sum.splits)

lemma repairs_append: "repairs (xs @ ys) = repairs xs + repairs ys"
  by (simp add: repairs_def)

lemma get_video_folder_ok: "get_video_folder e vid = Inr folder \<Longrightarrow> \<not> makedirs_fails e folder"
  by (auto simp: get_video_folder_def Let_def split: if_splits)

lemma show_nat_Suc_0: "show_nat (Suc 0) = ''1''"
  by (subst show_nat.simps) (simp add: digit_char_def)

lemma show_nat_1: "show_nat 1 = ''1''"
  by (simp add: show_nat_Suc_0)

lemma video_folder_1: "get_video_folder (fetch_env f) 1 = Inr folder1"
  by (simp add: get_video_folder_def Let_def BASE_DOWNLOAD_FOLDER_def path_join_def show_nat_Suc_0
        fetch_env_def plain_env_def folder1_def)

lemma join_video1: "path_join folder1 ''video_100.mp4'' = video1"
  by (simp add: path_join_def folder1_def video1_def)

lemma fetch_env_downloaded:
  "downloaded_files (fetch_env f) fs link1 folder1 = fs(video1 \<mapsto> f)"
  by (simp add: downloaded_files_def fetch_env_def plain_env_def join_video1)

lemma find_video_video1:
  "fsize f > 1024000 \<Longrightarrow>
     find_video (fs(video1 \<mapsto> f)) folder1 (listdir (fetch_env g) folder1) = Inr (Some video1)"
  by (simp add: fetch_env_def plain_env_def join_video1 suffix_to_prefix min_size_def)

subsection \<open>How often a job repairs\<close>







lemma set_status_committed:
  "db_outcomes e (wcalls w) = Committed \<Longrightarrow>
     set_status e w vid st None None None =
       (Inr (), w\<lparr>wdb := sql_update (wdb w) vid (\<lambda>r. r\<lparr>download_status := st\<rparr>),
                  wcalls := Suc (wcalls w)\<rparr>)"
  by (simp add: set_status_def update_video_download_status_def db_run_def Let_def)

lemma fetch_metadata_nothing:
  "video_title e link = None \<Longrightarrow> video_description e link = default_description \<Longrightarrow>
     fetch_metadata e w vid link = (Inr (), w)"
  by (simp add: fetch_metadata_def Let_def)







lemma repairs_simps [simp]:
  "repairs [] = 0"
  "repairs (Repair p # tr) = Suc (repairs tr)"
  "repairs (Probe p # tr) = repairs tr"
  "repairs (SimpleProbe p # tr) = repairs tr"
  "repairs (Reencode p # tr) = repairs tr"
  "repairs (Download p # tr) = repairs tr"
  "repairs (ExtractAudio p # tr) = repairs tr"
  "repairs (Transcribe p # tr) = repairs tr"
  by (simp_all add: repairs_def)







lemma fail_and_return_frameD:
  "fail_and_return e w vid = (r, w') \<Longrightarrow> wtrace w' = wtrace w \<and> wfiles w' = wfiles w"
  using fail_and_return_frame [of e w vid] by simp





lemma extract_and_transcribe_repairs:
  "repairs (wtrace (snd (extract_and_transcribe e w vid r folder))) = repairs (wtrace w)"
  by (auto simp: extract_and_transcribe_def Let_def repairs_append set_status_frame
      split: option.splits sum.splits prod.splits dest!: set_status_frameD)

lemma extract_and_transcribe_repairsD:
  "extract_and_transcribe e w vid r folder = (x, w') \<Longrightarrow> repairs (wtrace w') = repairs (wtrace w)"
  using extract_and_transcribe_repairs [of e w vid r folder] by simp









subsection \<open>The status of a finished job\<close>










lemma clean_partial_files_db:
  "wdb (clean_partial_files e w vid) = wdb w \<and> wcalls (clean_partial_files e w vid) = wcalls w"
  by (simp add: clean_partial_files_def split: sum.splits)










subsection \<open>A job without audio\<close>
















lemma fetch_env_fields:
  "\<not> makedirs_fails (fetch_env f) folder"
  "ytdlp (fetch_env f) link folder = \<lparr>yt_status = Exited 0 [], yt_written = Some (''video_100.mp4'', f)\<rparr>"
  "listdir (fetch_env f) folder = [''video_100.mp4'']"
  "audio_with_ffmpeg (fetch_env f) n p folder = None"
  "audio_with_pydub (fetch_env f) n p folder = None"
  "video_title (fetch_env f) link = None"
  "video_description (fetch_env f) link = default_description"
  "db_outcomes (fetch_env f) n = Committed"
  by (simp_all add: fetch_env_def plain_env_def)


lemma world1_fields:
  "wfiles world1 = Map.empty" "wtrace world1 = []" "wdb world1 = [1 \<mapsto> pending_row]"
  "wcalls world1 = 0" "wdocs world1 = Map.empty"
  by (simp_all add: world1_def)









subsection \<open>Transcriber\<close>

lemma create_empty_transcript_ok:
  "\<not> write_fails e (transcript_path_of apath folder) \<Longrightarrow>
     create_empty_transcript e ds apath folder msg =
       (Inr (transcript_path_of apath folder),
        ds(transcript_path_of apath folder \<mapsto> FailedTranscript msg))"
  by (simp add: create_empty_transcript_def write_doc_def Let_def)

lemma create_empty_transcript_wrote:
  "\<not> write_fails e (transcript_path_of apath folder) \<Longrightarrow>
     wrote_transcript (create_empty_transcript e ds apath folder msg)"
  by (simp add: create_empty_transcript_ok wrote_transcript_def)

lemma on_exception_wrote:
  assumes "\<not> write_fails e (transcript_path_of apath folder)"
    and "\<And>p ds. r = (Inr p, ds) \<Longrightarrow> wrote_transcript r"
  shows "wrote_transcript (on_exception e apath folder pre r)"
proof (cases r)
  case (Pair x ds)
  then show ?thesis
    using assms
    by (cases x) (simp_all add: on_exception_def create_empty_transcript_wrote)
qed

lemma basename_no_slash: "CHR ''/'' \<notin> set (basename p)"
proof -
  have "CHR ''/'' \<notin> set (takeWhile (\<lambda>c. c \<noteq> CHR ''/'') (rev p))"
    by (auto dest: set_takeWhileD)
  then show ?thesis by (simp add: basename_def)
qed

lemma splitext_root_subset: "set (splitext_root b) \<subseteq> set b"
proof -
  have "set (tl (dropWhile (\<lambda>c. c \<noteq> CHR ''.'') (rev b))) \<subseteq> set b"
  proof
    fix c assume "c \<in> set (tl (dropWhile (\<lambda>c. c \<noteq> CHR ''.'') (rev b)))"
    then have "c \<in> set (dropWhile (\<lambda>c. c \<noteq> CHR ''.'') (rev b))"
      by (metis list.sel(2) list.set_sel(2))
    then show "c \<in> set b" by (auto dest: set_dropWhileD)
  qed
  then show ?thesis by (auto simp: splitext_root_def Let_def)
qed

lemma str_remove_subset: "set (str_remove needle s) \<subseteq> set s"
proof (induction needle s rule: str_remove.induct)
  case (1 needle s)
  show ?case
  proof (cases "s = [] \<or> needle = []")
    case True
    then show ?thesis by (subst str_remove.simps) simp
  next
    case False
    show ?thesis
    proof (cases "prefix needle s")
      case True
      have "set (str_remove needle (drop (length needle) s)) \<subseteq> set (drop (length needle) s)"
        using 1(1) False True by simp
      also have "\<dots> \<subseteq> set s" by (rule set_drop_subset)
      finally show ?thesis using False True by (subst str_remove.simps) simp
    next
      case np: False
      have "set (str_remove needle (tl s)) \<subseteq> set (tl s)" using 1(2) False np by simp
      then have "set (str_remove needle (tl s)) \<subseteq> set s"
        using False by (cases s) auto
      then show ?thesis using False np by (subst str_remove.simps) (cases s, auto)
    qed
  qed
qed

lemma transcript_base_no_slash: "CHR ''/'' \<notin> set (transcript_base apath)"
  using str_remove_subset [of "''_audio''" "splitext_root (basename apath)"]
    splitext_root_subset [of "basename apath"] basename_no_slash [of apath]
  by (auto simp: transcript_base_def)

lemma path_join_inject:
  assumes "\<not> prefix ''/'' x" "\<not> prefix ''/'' y" "path_join a x = path_join a y"
  shows "x = y"
  using assms by (auto simp: path_join_def split: if_splits)

lemma clean_path_differs:
  "path_join folder (transcript_base apath @ ''_clean_transcript.txt'')
     \<noteq> transcript_path_of apath folder"
proof
  assume eq: "path_join folder (transcript_base apath @ ''_clean_transcript.txt'')
     = transcript_path_of apath folder"
  have n: "\<not> prefix ''/'' (transcript_base apath @ s)" if "\<not> prefix ''/'' s" for s
    using transcript_base_no_slash [of apath] that
    by (cases "transcript_base apath") auto
  have "transcript_base apath @ ''_clean_transcript.txt'' = transcript_base apath @ ''_transcript.txt''"
    using eq unfolding transcript_path_of_def
    by (rule path_join_inject [rotated 2]) (rule n, simp)+
  then show False by simp
qed

lemma save_transcript_wrote:
  assumes "\<not> write_fails e (transcript_path_of apath folder)"
  shows "wrote_transcript (save_transcript e ds apath folder text method)"
  unfolding save_transcript_def
proof (rule on_exception_wrote [OF assms])
  fix p ds'
  assume "(let tpath = transcript_path_of apath folder;
            clean_path = path_join folder (transcript_base apath @ ''_clean_transcript.txt'')
        in case format_transcript text method of
             Inl err \<Rightarrow> (Inl err, ds)
           | Inr formatted \<Rightarrow>
               (case write_doc e ds tpath formatted of
                  Inl err \<Rightarrow> (Inl err, ds)
                | Inr ds1 \<Rightarrow>
                    (case write_doc e ds1 clean_path (CleanTranscript text) of
                       Inl err \<Rightarrow> (Inl err, ds1)
                     | Inr ds2 \<Rightarrow> (Inr tpath, ds2)))) = (Inr p, ds')"
  then show "wrote_transcript (let tpath = transcript_path_of apath folder;
            clean_path = path_join folder (transcript_base apath @ ''_clean_transcript.txt'')
        in case format_transcript text method of
             Inl err \<Rightarrow> (Inl err, ds)
           | Inr formatted \<Rightarrow>
               (case write_doc e ds tpath formatted of
                  Inl err \<Rightarrow> (Inl err, ds)
                | Inr ds1 \<Rightarrow>
                    (case write_doc e ds1 clean_path (CleanTranscript text) of
                       Inl err \<Rightarrow> (Inl err, ds1)
                     | Inr ds2 \<Rightarrow> (Inr tpath, ds2))))"
    using clean_path_differs [of folder apath]
    by (auto simp: Let_def wrote_transcript_def write_doc_def format_transcript_def
          split: sum.splits if_splits)
qed


lemma save_transcript_wroteD:
  "\<not> write_fails e (transcript_path_of apath folder) \<Longrightarrow>
     save_transcript e ds apath folder text method = r \<Longrightarrow> wrote_transcript r"
  using save_transcript_wrote by blast

lemma create_empty_transcript_wroteD:
  "\<not> write_fails e (transcript_path_of apath folder) \<Longrightarrow>
     create_empty_transcript e ds apath folder msg = r \<Longrightarrow> wrote_transcript r"
  using create_empty_transcript_wrote by blast

lemma transcribe_short_audio_wrote:
  assumes "\<not> write_fails e (transcript_path_of apath folder)"
  shows "wrote_transcript (transcribe_short_audio e ds clip apath folder)"
  unfolding transcribe_short_audio_def
  by (rule on_exception_wrote [OF assms])
     (auto simp: Let_def
        split: option.splits recognition.splits list.splits if_splits
        dest: save_transcript_wroteD [OF assms] create_empty_transcript_wroteD [OF assms])

lemma transcribe_long_audio_wrote:
  assumes "\<not> write_fails e (transcript_path_of apath folder)"
  shows "wrote_transcript (transcribe_long_audio e ds clip apath folder)"
  unfolding transcribe_long_audio_def
  by (rule on_exception_wrote [OF assms])
     (auto split: sum.splits if_splits
        dest: save_transcript_wroteD [OF assms] create_empty_transcript_wroteD [OF assms])

lemma transcribe_short_audio_wroteD:
  "\<not> write_fails e (transcript_path_of apath folder) \<Longrightarrow>
     transcribe_short_audio e ds clip apath folder = r \<Longrightarrow> wrote_transcript r"
  using transcribe_short_audio_wrote by blast

lemma transcribe_long_audio_wroteD:
  "\<not> write_fails e (transcript_path_of apath folder) \<Longrightarrow>
     transcribe_long_audio e ds clip apath folder = r \<Longrightarrow> wrote_transcript r"
  using transcribe_long_audio_wrote by blast









subsection \<open>A file with audio streams only\<close>

lemma select_streams_v0_no_video:
  "list_all (\<lambda>s. codec_type s \<noteq> Some ''video'') ss \<Longrightarrow> select_streams_v0 ss = []"
  by (induction ss) (auto simp: select_streams_v0_def)

lemma select_streams_v0_video_only:
  "list_all (\<lambda>s. codec_type s = Some ''video'') (select_streams_v0 ss)"
proof -
  have "set (take 1 (filter (\<lambda>s. codec_type s = Some ''video'') ss))
          \<subseteq> set (filter (\<lambda>s. codec_type s = Some ''video'') ss)"
    by (rule set_take_subset)
  then show ?thesis by (auto simp: select_streams_v0_def list_all_iff)
qed

text \<open>
  On what the detailed probe lists, a failing verdict of \<^verbatim>\<open>stream_verdict\<close> is
  always \<^verbatim>\<open>No streams found\<close>: the branch that names the marker is never taken.
\<close>

lemma stream_verdict_selected:
  "\<not> fst (stream_verdict n (select_streams_v0 ss)) \<Longrightarrow>
     snd (stream_verdict n (select_streams_v0 ss)) = ''No streams found''"
proof -
  have "filter (\<lambda>s. codec_type s = Some ''video'') (select_streams_v0 ss) = select_streams_v0 ss"
    using select_streams_v0_video_only [of ss] by (simp add: list_all_iff)
  then show "\<not> fst (stream_verdict n (select_streams_v0 ss)) \<Longrightarrow>
     snd (stream_verdict n (select_streams_v0 ss)) = ''No streams found''"
    by (simp add: stream_verdict_def Let_def split: if_splits)
qed

text \<open>
  C3 fails on the code.  A file of 2 MB that holds one audio stream and no video
  stream passes the size check; the detailed probe, which selects \<^verbatim>\<open>v:0\<close>,
  lists no stream, and the validator answers \<^verbatim>\<open>No streams found\<close>, a message
  without the marker \<^verbatim>\<open>No video streams\<close>.  The fetch wrapper therefore runs
  \<^verbatim>\<open>repair_video_file\<close> on the file, and the job ends as \<^verbatim>\<open>failed\<close> with one repair
  in its trace.
\<close>

theorem audio_only_file_is_repaired:
  "fsize audio_only \<ge> 1024000 \<and>
   validate_video_file [video1 \<mapsto> audio_only] video1
     = ((False, ''No streams found''), [Probe video1]) \<and>
   \<not> str_contains no_video_marker ''No streams found'' \<and>
   download_youtube_video (fetch_env audio_only) Map.empty link1 folder1
     = (Inr (False, ''Video file invalid and repair failed: No streams found''),
        [video1 \<mapsto> audio_only],
        [Download link1, Probe video1, Repair video1, Reencode video1]) \<and>
   wtrace (snd (download_video_background (fetch_env audio_only) world1 1 link1))
     = [Download link1, Probe video1, Repair video1, Reencode video1] \<and>
   repairs (wtrace (snd (download_video_background (fetch_env audio_only) world1 1 link1))) = 1 \<and>
   job_status (snd (download_video_background (fetch_env audio_only) world1 1 link1)) 1
     = Some ''failed''"
proof -
  have z: "fsize audio_only \<ge> 1024000" by (simp add: audio_only_def)
  have v: "validate_video_file fs video1 = ((False, ''No streams found''), [Probe video1])"
    if "fs video1 = Some audio_only" for fs
    using that
    by (simp add: validate_video_file_def probe_verdict_def stream_verdict_def audio_only_def
          select_streams_v0_def min_size_def)
  have m: "\<not> str_contains no_video_marker ''No streams found''"
    by (simp add: no_video_marker_def)
  have d: "downloaded_files (fetch_env audio_only) Map.empty link1 folder1
             = [video1 \<mapsto> audio_only]"
    by (simp add: fetch_env_downloaded)
  have f: "find_video [video1 \<mapsto> audio_only] folder1 [''video_100.mp4''] = Inr (Some video1)"
    by (simp add: join_video1 suffix_to_prefix audio_only_def min_size_def)
  have r: "repair_video_file (fetch_env audio_only) [video1 \<mapsto> audio_only] video1 folder1
             = (Inr (False, video1), [video1 \<mapsto> audio_only], [Repair video1, Reencode video1])"
    by (simp add: repair_video_file_def reencoded_files_def discard_repaired_def Let_def
          fetch_env_def plain_env_def repaired_path_video1)
       (simp add: video1_def)
  have w: "download_youtube_video (fetch_env audio_only) Map.empty link1 folder1
     = (Inr (False, ''Video file invalid and repair failed: No streams found''),
        [video1 \<mapsto> audio_only],
        [Download link1, Probe video1, Repair video1, Reencode video1])"
    using m
    by (simp add: download_youtube_video_def Let_def d f v r fetch_env_fields
          del: find_video.simps str_contains.simps)
  have j: "wtrace (snd (download_video_background (fetch_env audio_only) world1 1 link1))
     = [Download link1, Probe video1, Repair video1, Reencode video1] \<and>
   job_status (snd (download_video_background (fetch_env audio_only) world1 1 link1)) 1
     = Some ''failed''"
    unfolding download_video_background_def background_body_def video_folder_1
    by (simp add: Let_def fetch_metadata_nothing fetch_env_fields world1_fields w
          set_status_committed clean_partial_files_trace clean_partial_files_db job_status_def
          sql_update_def)
  show ?thesis using z v [of "[video1 \<mapsto> audio_only]"] m w j by (simp add: repairs_def)
qed

end
